theory Spec2Isabelle
  imports Main "HOL-Library.Sublist"
begin

section \<open>Python strings\<close>

text \<open>
  A Python \<open>str\<close> is a sequence of Unicode code points, so a string is a list of code
  points and every index, length and slice below counts code points, as Python does.
  \<open>ascii\<close> writes a literal of the source whose characters are all ASCII; the two
  quote characters are written by their code points.
\<close>

type_synonym ustr = "nat list"

definition ascii :: "string \<Rightarrow> ustr" where
  "ascii s = map of_char s"

abbreviation dq :: nat where "dq \<equiv> 34"
abbreviation sq :: nat where "sq \<equiv> 39"
abbreviation newline :: nat where "newline \<equiv> 10"

text \<open>\<open>s.startswith(p)\<close>, \<open>s.endswith(p)\<close> and \<open>p in s\<close>.\<close>

fun startswith :: "'a list \<Rightarrow> 'a list \<Rightarrow> bool" where
  "startswith s [] = True"
| "startswith [] (p # ps) = False"
| "startswith (c # cs) (p # ps) = (c = p \<and> startswith cs ps)"

definition endswith :: "'a list \<Rightarrow> 'a list \<Rightarrow> bool" where
  "endswith s p = startswith (rev s) (rev p)"

fun contains :: "'a list \<Rightarrow> 'a list \<Rightarrow> bool" where
  "contains [] p = (p = [])"
| "contains (c # cs) p = (startswith (c # cs) p \<or> contains cs p)"

text \<open>
  \<open>str.isspace\<close> on one code point (the table of CPython's \<open>_PyUnicode_IsWhitespace\<close>),
  \<open>s.strip()\<close> and \<open>s.strip(chars)\<close>.
\<close>

definition isspace :: "nat \<Rightarrow> bool" where
  "isspace c = ((0x09 \<le> c \<and> c \<le> 0x0D) \<or> (0x1C \<le> c \<and> c \<le> 0x20) \<or> c = 0x85 \<or> c = 0xA0
     \<or> c = 0x1680 \<or> (0x2000 \<le> c \<and> c \<le> 0x200A) \<or> c = 0x2028 \<or> c = 0x2029
     \<or> c = 0x202F \<or> c = 0x205F \<or> c = 0x3000)"

definition strip_where :: "('a \<Rightarrow> bool) \<Rightarrow> 'a list \<Rightarrow> 'a list" where
  "strip_where P s = rev (dropWhile P (rev (dropWhile P s)))"

definition strip :: "ustr \<Rightarrow> ustr" where
  "strip s = strip_where isspace s"

definition strip_chars :: "ustr \<Rightarrow> ustr \<Rightarrow> ustr" where
  "strip_chars s chars = strip_where (\<lambda>c. c \<in> set chars) s"

text \<open>\<open>s.split(sep)\<close> for a separator of one code point: never an empty list.\<close>

fun split_acc :: "'a \<Rightarrow> 'a list \<Rightarrow> 'a list \<Rightarrow> 'a list list" where
  "split_acc sep cur [] = [cur]"
| "split_acc sep cur (c # cs) =
     (if c = sep then cur # split_acc sep [] cs else split_acc sep (cur @ [c]) cs)"

definition split :: "'a list \<Rightarrow> 'a \<Rightarrow> 'a list list" where
  "split s sep = split_acc sep [] s"

text \<open>
  \<open>s.find(p)\<close>, \<open>s.find(p, start)\<close> and \<open>s.rfind(p)\<close>: the index of the first (last)
  occurrence, \<open>-1\<close> when there is none.
\<close>

fun find_at :: "'a list \<Rightarrow> 'a list \<Rightarrow> nat \<Rightarrow> int" where
  "find_at [] p i = (if p = [] then int i else - 1)"
| "find_at (c # cs) p i = (if startswith (c # cs) p then int i else find_at cs p (Suc i))"

definition find :: "'a list \<Rightarrow> 'a list \<Rightarrow> int" where
  "find s p = find_at s p 0"

definition find_from :: "'a list \<Rightarrow> 'a list \<Rightarrow> nat \<Rightarrow> int" where
  "find_from s p start = (if length s < start then - 1 else find_at (drop start s) p start)"

fun rfind_at :: "'a list \<Rightarrow> 'a list \<Rightarrow> nat \<Rightarrow> int" where
  "rfind_at [] p i = (if p = [] then int i else - 1)"
| "rfind_at (c # cs) p i =
     (let r = rfind_at cs p (Suc i)
      in if r \<noteq> - 1 then r else if startswith (c # cs) p then int i else - 1)"

definition rfind :: "'a list \<Rightarrow> 'a list \<Rightarrow> int" where
  "rfind s p = rfind_at s p 0"

text \<open>
  The slice \<open>s[i:j]\<close>: a negative index counts from the end, and both indices are
  clamped to the string, so a slice never raises.
\<close>

definition slice_index :: "nat \<Rightarrow> int \<Rightarrow> nat" where
  "slice_index n i = (if i < 0 then nat (max 0 (i + int n)) else min (nat i) n)"

definition slice :: "'a list \<Rightarrow> int \<Rightarrow> int \<Rightarrow> 'a list" where
  "slice s i j =
     (let a = slice_index (length s) i; b = slice_index (length s) j
      in take (b - a) (drop a s))"

text \<open>
  \<open>s.replace(old, new)\<close>: the occurrences of \<open>old\<close> are replaced from the left and do
  not overlap (after a match the scan resumes behind it: the counter skips the rest of the
  match); an empty \<open>old\<close> matches before every code point and at the end.
\<close>

fun replace_skip :: "'a list \<Rightarrow> 'a list \<Rightarrow> nat \<Rightarrow> 'a list \<Rightarrow> 'a list" where
  "replace_skip old new k [] = []"
| "replace_skip old new (Suc k) (c # cs) = replace_skip old new k cs"
| "replace_skip old new 0 (c # cs) =
     (if startswith (c # cs) old then new @ replace_skip old new (length old - 1) cs
      else c # replace_skip old new 0 cs)"

definition replace :: "'a list \<Rightarrow> 'a list \<Rightarrow> 'a list \<Rightarrow> 'a list" where
  "replace s old new =
     (if old = [] then new @ concat (map (\<lambda>c. c # new) s) else replace_skip old new 0 s)"

text \<open>\<open>str(n)\<close> for a line number: the decimal digits.\<close>

fun str_nat :: "nat \<Rightarrow> ustr" where
  "str_nat n = (if n < 10 then [48 + n] else str_nat (n div 10) @ [48 + n mod 10])"

declare str_nat.simps [simp del]

section \<open>The emoji compiler (spirallogic\_emoji\_bridge.py)\<close>

subsection \<open>The emoji pattern of \<open>parse_emoji_spine\<close>\<close>

text \<open>
  The character class of the regular expression, range by range as the source writes it,
  and \<open>re.findall\<close> of the pattern \<open>[...]+\<close>: the maximal runs of code points of the
  class, from left to right.
\<close>

definition emoji_class :: "nat \<Rightarrow> bool" where
  "emoji_class c =
     ((0x1F600 \<le> c \<and> c \<le> 0x1F64F) \<or> (0x1F300 \<le> c \<and> c \<le> 0x1F5FF)
      \<or> (0x1F680 \<le> c \<and> c \<le> 0x1F6FF) \<or> (0x1F1E0 \<le> c \<and> c \<le> 0x1F1FF)
      \<or> (0x2702 \<le> c \<and> c \<le> 0x27B0) \<or> (0x24C2 \<le> c \<and> c \<le> 0x1F251))"

fun findall_acc :: "ustr \<Rightarrow> ustr \<Rightarrow> ustr list" where
  "findall_acc cur [] = (if cur = [] then [] else [cur])"
| "findall_acc cur (c # cs) =
     (if emoji_class c then findall_acc (cur @ [c]) cs
      else (if cur = [] then [] else [cur]) @ findall_acc [] cs)"

definition findall_emojis :: "ustr \<Rightarrow> ustr list" where
  "findall_emojis s = findall_acc [] s"

subsection \<open>The spine and its tables\<close>

record EmojiSpine =
  anchor :: ustr
  body :: ustr
  tempo :: ustr
  intent :: ustr

text \<open>\<open>d.get(k, default)\<close> and \<open>k in d\<close> on a dictionary written as its items.\<close>

definition dict_get :: "('k \<times> 'v) list \<Rightarrow> 'k \<Rightarrow> 'v \<Rightarrow> 'v" where
  "dict_get d k dflt = (case map_of d k of None \<Rightarrow> dflt | Some v \<Rightarrow> v)"

definition dict_has :: "('k \<times> 'v) list \<Rightarrow> 'k \<Rightarrow> bool" where
  "dict_has d k = (map_of d k \<noteq> None)"

definition spine_anchors :: "(ustr \<times> ustr) list" where
  "spine_anchors =
     [([0x2764, 0xFE0F], ascii ''love''), ([0x1F525], ascii ''anger''),
      ([0x1F4A7], ascii ''grief''), ([0x1F31E], ascii ''joy''),
      ([0x1F577, 0xFE0F], ascii ''fear''), ([0x1F9CA], ascii ''dissociation''),
      ([0x1FA84], ascii ''hope''), ([0x2753], ascii ''confusion''),
      ([0x1F648], ascii ''shame''), ([0x1FAA8], ascii ''resolve'')]"

definition spine_tempo :: "(ustr \<times> ustr) list" where
  "spine_tempo =
     [([0x26A1], ascii ''urgent''), ([0x1F6A8], ascii ''crisis''),
      ([0x1F40E], ascii ''normal''), ([0x1F30A], ascii ''flowing''),
      ([0x1F422], ascii ''slow''), ([0x1F9D8], ascii ''sacred'')]"

definition spine_intent :: "(ustr \<times> ustr) list" where
  "spine_intent =
     [([0x1F5EF, 0xFE0F], ascii ''speak_truth''), ([0x1F198], ascii ''need_help''),
      ([0x2728], ascii ''connect''), ([0x1F6D1], ascii ''set_boundary''),
      ([0x1F513], ascii ''reclaim_power'')]"

text \<open>
  \<open>EmojiSpine.to_spirallogic\<close>: its three local tables have the items of the compiler's
  three tables, but their own defaults.
\<close>

definition to_spirallogic :: "EmojiSpine \<Rightarrow> ustr" where
  "to_spirallogic sp =
     (let emotion = dict_get spine_anchors (anchor sp) (ascii ''unknown'');
          speed = dict_get spine_tempo (tempo sp) (ascii ''normal'');
          action = dict_get spine_intent (intent sp) (ascii ''process'')
      in ascii ''user.emotional_state = '' @ [dq] @ emotion @ [dq]
         @ ascii ''; user.tempo = '' @ [dq] @ speed @ [dq]
         @ ascii ''; user.intent = '' @ [dq] @ action @ [dq])"

text \<open>\<open>next((e for e in emojis if e in table), default)\<close>.\<close>

definition first_in :: "(ustr \<times> ustr) list \<Rightarrow> ustr list \<Rightarrow> ustr \<Rightarrow> ustr" where
  "first_in table emojis dflt =
     (case List.find (dict_has table) emojis of None \<Rightarrow> dflt | Some e \<Rightarrow> e)"

definition parse_emoji_spine :: "ustr \<Rightarrow> EmojiSpine option" where
  "parse_emoji_spine emoji_sequence =
     (let emojis = findall_emojis emoji_sequence
      in if length emojis < 3 then None
         else Some \<lparr>anchor = first_in spine_anchors emojis [0x2753],
                    body = [0x1F9E0],
                    tempo = first_in spine_tempo emojis [0x1F40E],
                    intent = first_in spine_intent emojis [0x2728]\<rparr>)"

subsection \<open>Compiling one line\<close>

text \<open>\<open>_contains_emojis\<close>: any of the listed emojis occurs in the text.\<close>

definition contains_emojis :: "ustr \<Rightarrow> ustr list \<Rightarrow> bool" where
  "contains_emojis text emoji_list = list_ex (\<lambda>emoji. contains text emoji) emoji_list"

definition compile_voice_invocation :: "ustr \<Rightarrow> ustr" where
  "compile_voice_invocation emoji_line =
     (if contains emoji_line [0x1F494] then ascii ''@healer.support_grief()''
      else if contains emoji_line [0x1F60A] then ascii ''@sage.share_wisdom()''
      else if contains emoji_line [0x1F630] then ascii ''@protector.provide_safety()''
      else if contains emoji_line [0x1F621] then ascii ''@mirror.transform_anger()''
      else ascii ''@healer.assess(user.emotional_state)'')"

definition compile_conditional :: "ustr \<Rightarrow> ustr" where
  "compile_conditional emoji_line =
     (if contains emoji_line [0x1F630] \<and> contains emoji_line [0x1F6E1, 0xFE0F]
      then ascii ''if user.emotional_state == '' @ [dq] @ ascii ''anxiety'' @ [dq]
           @ ascii '' { @protector.activate_safety() }''
      else if contains emoji_line [0x1F622] \<and> contains emoji_line [0x1F9D8]
      then ascii ''if user.emotional_state == '' @ [dq] @ ascii ''sadness'' @ [dq]
           @ ascii '' { sacred_pause.engage() }''
      else if contains emoji_line [0x1F92F]
      then ascii ''if user.bandwidth.current() < 0.3 { sacred_pause.mandatory() }''
      else ascii ''if user.needs_support { @healer.respond() }'')"

definition compile_sacred_pause :: "ustr \<Rightarrow> ustr" where
  "compile_sacred_pause emoji_line =
     (if contains emoji_line [0x1F6D1]
      then ascii ''sacred_pause.mandatory { purpose: '' @ [dq]
           @ ascii ''Emotional overload protection'' @ [dq] @ ascii '' }''
      else ascii ''sacred_pause.offer { purpose: '' @ [dq] @ ascii ''Processing time'' @ [dq]
           @ ascii '' }'')"

definition compile_consent :: "ustr \<Rightarrow> ustr" where
  "compile_consent emoji_line =
     (if contains emoji_line [0x2705]
      then ascii ''consent.grant('' @ [dq] @ ascii ''emotional_support'' @ [dq] @ ascii '')''
      else if contains emoji_line [0x274C]
      then ascii ''consent.deny('' @ [dq] @ ascii ''deep_processing'' @ [dq] @ ascii '')''
      else ascii ''consent.check('' @ [dq] @ ascii ''emotional_support'' @ [dq] @ ascii '')'')"

definition compile_spiral_phase :: "ustr \<Rightarrow> ustr" where
  "compile_spiral_phase emoji_line =
     (if contains emoji_line [0x1F441, 0xFE0F]
      then ascii ''look_in { @healer.assess(user.current_state) }''
      else if contains emoji_line [0x1F30A]
      then ascii ''spiral_up { @healer.guide_processing() }''
      else if contains emoji_line [0x1F54A, 0xFE0F]
      then ascii ''flow_out { @healer.support_integration() }''
      else ascii ''// Spiral phase marker'')"

text \<open>
  \<open>compile_emoji_line\<close>. \<open>unicodedata.normalize('NFC', _)\<close> is a function of Python's
  library, not of this repository: it is the parameter \<open>nfc\<close> of every definition that
  calls it.
\<close>

definition compile_emoji_line :: "(ustr \<Rightarrow> ustr) \<Rightarrow> ustr \<Rightarrow> ustr" where
  "compile_emoji_line nfc emoji_line0 =
     (let emoji_line = nfc (strip emoji_line0)
      in case parse_emoji_spine emoji_line of
           Some spine \<Rightarrow> to_spirallogic spine
         | None \<Rightarrow>
             if contains_emojis emoji_line [[0x1F3F0], [0x1F9E0]]
             then compile_voice_invocation emoji_line
             else if contains_emojis emoji_line [[0x1F4AD], [0x27A1, 0xFE0F]]
             then compile_conditional emoji_line
             else if contains_emojis emoji_line [[0x23F8, 0xFE0F], [0x1F6D1]]
             then compile_sacred_pause emoji_line
             else if contains_emojis emoji_line [[0x1F4CB], [0x2705], [0x274C]]
             then compile_consent emoji_line
             else if contains emoji_line [0x1F300]
             then compile_spiral_phase emoji_line
             else ascii ''output.print('' @ [dq] @ ascii ''Emoji expression: '' @ emoji_line
                  @ [dq] @ ascii '')'')"

subsection \<open>Compiling a ritual\<close>

text \<open>\<open>sep.join(items)\<close>.\<close>

fun join :: "'a list \<Rightarrow> 'a list list \<Rightarrow> 'a list" where
  "join sep [] = []"
| "join sep [x] = x"
| "join sep (x # y # ys) = x @ sep @ join sep (y # ys)"

text \<open>
  The loop of \<open>compile_emoji_ritual\<close> over the input lines: a line that is blank after
  \<open>strip\<close> is skipped, and a compiled line is appended, indented, unless it is the empty
  string.
\<close>

fun compile_body :: "(ustr \<Rightarrow> ustr) \<Rightarrow> ustr list \<Rightarrow> ustr list" where
  "compile_body nfc [] = []"
| "compile_body nfc (line # lines) =
     (if strip line = [] then compile_body nfc lines
      else (let compiled_line = compile_emoji_line nfc line
            in (if compiled_line \<noteq> [] then [ascii ''    '' @ compiled_line] else [])
               @ compile_body nfc lines))"

definition intent_desc :: "ustr \<Rightarrow> ustr" where
  "intent_desc first_line =
     (case parse_emoji_spine first_line of
        Some spine \<Rightarrow>
          (let emotion = dict_get spine_anchors (anchor spine) (ascii ''stable'')
           in ascii ''Process '' @ emotion @ ascii '' with ''
              @ dict_get spine_intent (intent spine) (ascii ''support''))
      | None \<Rightarrow> ascii ''Emoji-driven emotional processing'')"

definition compile_emoji_ritual :: "(ustr \<Rightarrow> ustr) \<Rightarrow> ustr \<Rightarrow> ustr" where
  "compile_emoji_ritual nfc emoji_code =
     (let lines = split (strip emoji_code) newline;
          first_line = (case lines of [] \<Rightarrow> [] | l # _ \<Rightarrow> l)
      in join [newline]
           ([ascii ''ritual.emoji_session {'',
             ascii ''    intent: '' @ [dq] @ intent_desc first_line @ [dq] @ ascii '','',
             ascii ''    participants: [user, @healer],'',
             ascii ''    consent: { required: ['' @ [dq] @ ascii ''emotional_support'' @ [dq]
               @ ascii ''] }'',
             ascii ''}'',
             [],
             ascii ''execute {'']
            @ compile_body nfc lines
            @ [ascii ''}'', [], ascii ''complete {'',
               ascii ''    @healer.honor_completion()'', ascii ''}'']))"

section \<open>The line interpreter (spirallogic\_cli.py)\<close>

subsection \<open>The interpreter object\<close>

text \<open>
  \<open>BasicSpiralLogicInterpreter\<close>: the three attributes that \<open>__init__\<close> sets to empty
  containers (its fourth, \<open>options\<close>, is stored and never read). The two dictionaries are
  lists of items in insertion order, the order in which Python iterates over them;
  \<open>d[k] = v\<close> keeps the place of a key that is already there.
\<close>

record interpreter =
  variables :: "(ustr \<times> ustr) list"
  consent_status :: "(ustr \<times> bool) list"
  output_buffer :: "ustr list"

definition init_interpreter :: interpreter where
  "init_interpreter = \<lparr>variables = [], consent_status = [], output_buffer = []\<rparr>"

fun dict_set :: "('k \<times> 'v) list \<Rightarrow> 'k \<Rightarrow> 'v \<Rightarrow> ('k \<times> 'v) list" where
  "dict_set [] k v = [(k, v)]"
| "dict_set ((k', v') # d) k v =
     (if k' = k then (k, v) # d else (k', v') # dict_set d k v)"

text \<open>
  \<open>input(prompt)\<close> is the only call of the interpreter that raises an \<open>Exception\<close>. It
  first writes the prompt: the console refuses some prompts (\<open>UnicodeEncodeError\<close> for a
  code point that the console's encoding does not have, such as a lone surrogate under the
  UTF-8 that the module sets; \<open>ValueError\<close> for a NUL on a terminal). Which prompts, and
  with which message, belongs to the console: the parameter \<open>prompt_error\<close> of the
  definitions below gives the message of the exception for a refused prompt. Then it reads:
  standard input holds a typed line, an interrupt from the keyboard, or nothing more (the
  empty list), where \<open>input\<close> raises \<open>EOFError\<close>.
\<close>

datatype input_event = Typed ustr | KeyboardInterrupt

datatype exn = EOFError | PromptError ustr

fun exn_message :: "exn \<Rightarrow> ustr" where
  "exn_message EOFError = ascii ''EOF when reading a line''"
| "exn_message (PromptError message) = message"

subsection \<open>Helpers of the handlers\<close>

text \<open>
  \<open>_print\<close>: the message is normalised and appended to the buffer (the text written to
  the console is the same message, or its ASCII part when the console cannot encode it).
\<close>

definition print_message :: "(ustr \<Rightarrow> ustr) \<Rightarrow> interpreter \<Rightarrow> ustr \<Rightarrow> interpreter" where
  "print_message nfc st message = st\<lparr>output_buffer := output_buffer st @ [nfc message]\<rparr>"

text \<open>\<open>_substitute_variables\<close>: one pass over the items of \<open>self.variables\<close>.\<close>

fun substitute_variables :: "(ustr \<times> ustr) list \<Rightarrow> ustr \<Rightarrow> ustr" where
  "substitute_variables [] text = text"
| "substitute_variables ((var_name, var_value) # vars) text =
     (let placeholder = [123] @ var_name @ [125];
          text1 = (if contains text placeholder then replace text placeholder var_value
                   else text);
          text2 = (if contains text1 var_name then replace text1 var_name var_value
                   else text1)
      in substitute_variables vars text2)"

text \<open>
  The removal of one pair of surrounding quotes, which \<open>_extract_string_arg\<close> and
  \<open>_handle_assignment\<close> both write out.
\<close>

definition remove_quotes :: "ustr \<Rightarrow> ustr" where
  "remove_quotes arg =
     (if startswith arg [dq] \<and> endswith arg [dq] then slice arg 1 (- 1)
      else if startswith arg [sq] \<and> endswith arg [sq] then slice arg 1 (- 1)
      else arg)"

definition extract_string_arg :: "(ustr \<times> ustr) list \<Rightarrow> ustr \<Rightarrow> ustr \<Rightarrow> ustr" where
  "extract_string_arg vars line function =
     (let start = find line (function @ ascii ''('') + int (length (function @ ascii ''(''));
          end = rfind line (ascii '')'');
          arg = strip (slice line start end)
      in substitute_variables vars (remove_quotes arg))"

subsection \<open>The handlers\<close>

definition handle_voice_speak :: "(ustr \<Rightarrow> ustr) \<Rightarrow> interpreter \<Rightarrow> ustr \<Rightarrow> interpreter" where
  "handle_voice_speak nfc st line =
     (let voice = (if contains line (ascii ''@healer'') then ascii ''Healer''
                   else if contains line (ascii ''@sage'') then ascii ''Sage''
                   else if contains line (ascii ''@mirror'') then ascii ''Mirror''
                   else ascii ''Voice'')
      in if contains line (ascii ''message:'')
         then (let start = find line (ascii ''message:'') + 8;
                   end0 = (if contains (drop (nat start) line) (ascii '','')
                           then find_from line (ascii '','') (nat start)
                           else find_from line (ascii ''}'') (nat start));
                   end = (if end0 = - 1 then int (length line) else end0);
                   message = strip_chars (strip (slice line start end)) [dq, sq]
               in print_message nfc st
                    (voice @ ascii '': '' @ substitute_variables (variables st) message))
         else print_message nfc st (voice @ ascii '' speaks''))"

definition handle_input_ask ::
  "(ustr \<Rightarrow> ustr) \<Rightarrow> (ustr \<Rightarrow> ustr option) \<Rightarrow> interpreter \<Rightarrow> ustr \<Rightarrow> input_event list
    \<Rightarrow> exn option \<times> interpreter \<times> input_event list" where
  "handle_input_ask nfc prompt_error st line stdin =
     (let prompt = extract_string_arg (variables st) line (ascii ''input.ask'')
      in case prompt_error (prompt @ ascii '': '') of
           Some message \<Rightarrow> (Some (PromptError message), st, stdin)
         | None \<Rightarrow>
            (case stdin of
               [] \<Rightarrow> (Some EOFError, st, [])
             | Typed response # rest \<Rightarrow>
                 (if contains line (ascii ''='')
                  then (let var_name = strip (case split line 61 of [] \<Rightarrow> [] | p # _ \<Rightarrow> p)
                        in (None,
                            st\<lparr>variables := dict_set (variables st) var_name response\<rparr>,
                            rest))
                  else (None, st, rest))
             | KeyboardInterrupt # rest \<Rightarrow>
                 (None, print_message nfc st ([newline] @ ascii ''Input cancelled by user''),
                  rest)))"

definition handle_consent :: "(ustr \<Rightarrow> ustr) \<Rightarrow> interpreter \<Rightarrow> ustr \<Rightarrow> interpreter" where
  "handle_consent nfc st line =
     (if contains line (ascii ''consent.check('')
      then (let domain = extract_string_arg (variables st) line (ascii ''consent.check'');
                granted = dict_get (consent_status st) domain True
            in print_message nfc st
                 (ascii ''Checking consent for '' @ [sq] @ domain @ [sq] @ ascii '': ''
                  @ (if granted then ascii ''Granted'' else ascii ''Denied'')))
      else if contains line (ascii ''consent.request('')
      then (let domain = extract_string_arg (variables st) line (ascii ''consent.request'');
                st1 = st\<lparr>consent_status := dict_set (consent_status st) domain True\<rparr>
            in print_message nfc st1
                 (ascii ''Requesting consent for '' @ [sq] @ domain @ [sq]
                  @ ascii '': Granted''))
      else st)"

definition handle_sacred_pause :: "(ustr \<Rightarrow> ustr) \<Rightarrow> interpreter \<Rightarrow> ustr \<Rightarrow> interpreter" where
  "handle_sacred_pause nfc st line =
     (if contains line (ascii ''sacred_pause.offer'')
      then print_message nfc st (ascii ''Sacred pause offered - taking a moment...'')
      else if contains line (ascii ''sacred_pause.engage'')
      then print_message nfc st
             (ascii ''Sacred pause engaged - restoring emotional bandwidth...'')
      else st)"

text \<open>\<open>line.split('=', 1)\<close>: at most one split, at the first separator.\<close>

definition split1 :: "'a list \<Rightarrow> 'a \<Rightarrow> 'a list list" where
  "split1 s sep =
     (if sep \<in> set s
      then [takeWhile (\<lambda>c. c \<noteq> sep) s, drop 1 (dropWhile (\<lambda>c. c \<noteq> sep) s)]
      else [s])"

definition handle_assignment :: "interpreter \<Rightarrow> ustr \<Rightarrow> interpreter" where
  "handle_assignment st line =
     (case split1 line 61 of
        [p0, p1] \<Rightarrow>
          (let var_name = strip p0;
               var_value = remove_quotes (strip p1)
           in st\<lparr>variables := dict_set (variables st) var_name var_value\<rparr>)
      | _ \<Rightarrow> st)"

subsection \<open>Dispatch and the run loop\<close>

text \<open>
  \<open>_execute_line\<close>: the first branch whose test holds. The result is the exception the
  line raised, if any, the interpreter as the line left it, and the rest of the input.
\<close>

definition execute_line ::
  "(ustr \<Rightarrow> ustr) \<Rightarrow> (ustr \<Rightarrow> ustr option) \<Rightarrow> interpreter \<Rightarrow> ustr \<Rightarrow> input_event list
    \<Rightarrow> exn option \<times> interpreter \<times> input_event list" where
  "execute_line nfc prompt_error st line stdin =
     (if contains line (ascii ''output.print('')
      then (None,
            print_message nfc st (extract_string_arg (variables st) line (ascii ''output.print'')),
            stdin)
      else if contains line (ascii ''@'') \<and> contains line (ascii ''.speak'')
      then (None, handle_voice_speak nfc st line, stdin)
      else if contains line (ascii ''input.ask('')
      then handle_input_ask nfc prompt_error st line stdin
      else if contains line (ascii ''consent.'')
      then (None, handle_consent nfc st line, stdin)
      else if contains line (ascii ''sacred_pause.'')
      then (None, handle_sacred_pause nfc st line, stdin)
      else if contains line (ascii ''='') \<and> \<not> endswith (strip line) (ascii ''{'')
      then (None, handle_assignment st line, stdin)
      else if startswith line (ascii ''ritual.'')
      then (None, print_message nfc st (ascii ''Starting ritual: '' @ line), stdin)
      else if line = ascii ''execute {''
      then (None, print_message nfc st (ascii ''Executing ritual...''), stdin)
      else if line = ascii ''complete {''
      then (None, print_message nfc st (ascii ''Completing ritual...''), stdin)
      else if line \<in> set [ascii ''look_in {'', ascii ''spiral_up {'', ascii ''flow_out {'']
      then (let phase = replace line (ascii '' {'') []
            in (None, print_message nfc st (ascii ''Entering '' @ phase @ ascii '' phase''),
                stdin))
      else (None, st, stdin))"

text \<open>
  The dictionary that \<open>run\<close> returns: the failure dictionaries have no \<open>variables\<close> key
  and the success dictionary has no \<open>error\<close> key.
\<close>

record run_result =
  res_success :: bool
  res_error :: "ustr option"
  res_output :: "ustr list"
  res_variables :: "(ustr \<times> ustr) list option"

text \<open>
  The loop of \<open>run\<close> over the numbered lines, from line number \<open>line_num\<close> on. It
  returns the dictionary, the interpreter and the input that is left.
\<close>

fun run_lines ::
  "(ustr \<Rightarrow> ustr) \<Rightarrow> (ustr \<Rightarrow> ustr option) \<Rightarrow> nat \<Rightarrow> ustr list \<Rightarrow> interpreter
    \<Rightarrow> input_event list \<Rightarrow> run_result \<times> interpreter \<times> input_event list" where
  "run_lines nfc prompt_error line_num [] st stdin =
     (\<lparr>res_success = True, res_error = None, res_output = output_buffer st,
       res_variables = Some (variables st)\<rparr>, st, stdin)"
| "run_lines nfc prompt_error line_num (line0 # lines) st stdin =
     (let line = strip line0
      in if line = [] \<or> startswith line (ascii ''//'')
         then run_lines nfc prompt_error (Suc line_num) lines st stdin
         else (case execute_line nfc prompt_error st line stdin of
                 (Some e, st1, stdin1) \<Rightarrow>
                   (\<lparr>res_success = False,
                     res_error = Some (ascii ''Line '' @ str_nat line_num @ ascii '': ''
                                       @ exn_message e),
                     res_output = output_buffer st1, res_variables = None\<rparr>, st1, stdin1)
               | (None, st1, stdin1) \<Rightarrow>
                   run_lines nfc prompt_error (Suc line_num) lines st1 stdin1))"

definition run ::
  "(ustr \<Rightarrow> ustr) \<Rightarrow> (ustr \<Rightarrow> ustr option) \<Rightarrow> interpreter \<Rightarrow> ustr \<Rightarrow> input_event list
    \<Rightarrow> run_result \<times> interpreter \<times> input_event list" where
  "run nfc prompt_error st content stdin =
     run_lines nfc prompt_error 1 (split content newline) st stdin"

section \<open>Evaluation on concrete inputs\<close>

text \<open>
  The definitions that the simplifier unfolds to run the model on a concrete string.
  Where a theorem below fixes the normalisation function to the identity, every code
  point of its input is ASCII or one of U+1F525, U+1F9E0, U+26A1, U+1F5EF, U+FE0F,
  U+1F3F0, U+1F4CB, U+2705: none of them has a canonical decomposition or a non-zero
  combining class, so NFC leaves these strings as they are.
\<close>

lemmas string_defs = ascii_def strip_def strip_where_def strip_chars_def isspace_def endswith_def
  split_def find_def find_from_def rfind_def slice_def slice_index_def replace_def

lemmas compiler_defs = compile_emoji_line_def parse_emoji_spine_def findall_emojis_def
  emoji_class_def contains_emojis_def compile_voice_invocation_def compile_conditional_def
  compile_sacred_pause_def compile_consent_def compile_spiral_phase_def to_spirallogic_def
  first_in_def dict_get_def dict_has_def spine_anchors_def spine_tempo_def spine_intent_def

lemmas interpreter_defs = run_def execute_line_def handle_voice_speak_def handle_input_ask_def
  handle_consent_def handle_sacred_pause_def handle_assignment_def split1_def
  extract_string_arg_def remove_quotes_def print_message_def init_interpreter_def dict_get_def


section \<open>Facts about the string operations\<close>

lemma startswith_append: "startswith (p @ r) p"
  by (induction p) auto

lemma startswith_length: "startswith s p \<Longrightarrow> length p \<le> length s"
  by (induction s p rule: startswith.induct) auto

lemma startswith_imp_contains: "startswith s p \<Longrightarrow> contains s p"
proof (cases s)
  case Nil
  assume "startswith s p"
  with Nil show ?thesis by (cases p) auto
next
  case (Cons c cs)
  assume "startswith s p"
  with Cons show ?thesis by simp
qed

lemma contains_nonempty: "contains s p \<Longrightarrow> p \<noteq> [] \<Longrightarrow> s \<noteq> []"
  by (cases s) auto

lemma find_at_contains:
  "contains s p \<Longrightarrow> \<exists>k. find_at s p i = int (i + k) \<and> k + length p \<le> length s"
proof (induction s arbitrary: i)
  case Nil
  then show ?case by simp
next
  case (Cons c cs)
  show ?case
  proof (cases "startswith (c # cs) p")
    case True
    then have "find_at (c # cs) p i = int (i + 0) \<and> 0 + length p \<le> length (c # cs)"
      using startswith_length [OF True] by simp
    then show ?thesis by blast
  next
    case False
    with Cons.prems have "contains cs p" by simp
    from Cons.IH [OF this, of "Suc i"] obtain k
      where "find_at cs p (Suc i) = int (Suc i + k)" and "k + length p \<le> length cs" by blast
    with False have "find_at (c # cs) p i = int (i + Suc k) \<and> Suc k + length p \<le> length (c # cs)"
      by simp
    then show ?thesis by blast
  qed
qed

lemma find_contains:
  "contains s p \<Longrightarrow> 0 \<le> find s p \<and> nat (find s p) + length p \<le> length s"
  using find_at_contains [of s p 0] by (auto simp: find_def)

lemma rfind_at_absent: "\<not> contains s p \<Longrightarrow> rfind_at s p i = - 1"
  by (induction s arbitrary: i) (auto simp: Let_def)

lemma rfind_absent: "\<not> contains s p \<Longrightarrow> rfind s p = - 1"
  by (simp add: rfind_def rfind_at_absent)

lemma rfind_at_last: "rfind_at (xs @ [c]) [c] i = int (i + length xs)"
  by (induction xs arbitrary: i) (auto simp: Let_def)

lemma slice_to_last:
  "a \<le> length s \<Longrightarrow> slice s (int a) (- 1) = butlast (drop a s)"
proof -
  assume a: "a \<le> length s"
  have n: "nat (max 0 (- 1 + int (length s))) = length s - 1" by arith
  have i: "slice_index (length s) (int a) = a" using a by (simp add: slice_index_def)
  have j: "slice_index (length s) (- 1) = length s - 1" using n by (simp add: slice_index_def)
  show ?thesis by (simp add: slice_def Let_def i j butlast_conv_take)
qed

lemma slice_between:
  "slice (p @ m @ r) (int (length p)) (int (length p + length m)) = m"
  by (simp add: slice_def slice_index_def Let_def)

lemma strip_where_fixed:
  "s \<noteq> [] \<Longrightarrow> \<not> P (hd s) \<Longrightarrow> \<not> P (last s) \<Longrightarrow> strip_where P s = s"
proof -
  assume ne: "s \<noteq> []" and h: "\<not> P (hd s)" and l: "\<not> P (last s)"
  from ne h have a: "dropWhile P s = s" by (cases s) auto
  from ne l have b: "dropWhile P (rev s) = rev s"
    by (cases "rev s") (auto simp: last_rev hd_rev dest: arg_cong [of _ _ hd])
  show ?thesis by (simp add: strip_where_def a b)
qed

lemma replace_skip_absent: "\<not> contains s old \<Longrightarrow> replace_skip old new 0 s = s"
  by (induction s) auto

lemma replace_absent: "\<not> contains s old \<Longrightarrow> replace s old new = s"
proof (cases "old = []")
  case True
  assume "\<not> contains s old"
  moreover have "contains s []" by (cases s) auto
  ultimately show ?thesis using True by simp
next
  case False
  assume "\<not> contains s old"
  with False show ?thesis by (simp add: replace_def replace_skip_absent)
qed

section \<open>The spine parser\<close>

text \<open>
  Claim C4. The text U+65E5 U+672C U+0020 U+8A9E U+0020 U+5B57 (six code points: Japanese
  words and two spaces) holds no emoji glyph, so a string with fewer than three emoji
  glyphs should give no spine. The last range of the pattern, U+24C2 to U+1F251, takes in
  the CJK ideographs: \<open>re.findall\<close> returns three matches, the length test passes, and
  \<open>parse_emoji_spine\<close> returns the spine of the three default glyphs instead of
  \<open>None\<close>. (No operation of the function raises: that part of the claim holds.)
\<close>

theorem parse_emoji_spine_cjk_text:
  "findall_emojis [0x65E5, 0x672C, 0x20, 0x8A9E, 0x20, 0x5B57]
     = [[0x65E5, 0x672C], [0x8A9E], [0x5B57]]
   \<and> parse_emoji_spine [0x65E5, 0x672C, 0x20, 0x8A9E, 0x20, 0x5B57]
     = Some \<lparr>anchor = [0x2753], body = [0x1F9E0], tempo = [0x1F40E], intent = [0x2728]\<rparr>"
  by (simp add: compiler_defs)

text \<open>
  Claim C5. The line U+1F525 U+1F9E0 U+26A1 U+1F5EF U+FE0F, which the source's own help
  text and demo call the anger spine, contains an anchor glyph (U+1F525), a tempo glyph
  (U+26A1) and an intent glyph (U+1F5EF U+FE0F), each a key of its table. The pattern's
  class has no range for U+1F9E0 and its \<open>+\<close> joins neighbouring glyphs into one match,
  so \<open>re.findall\<close> returns two strings, the second of them no key of any table, and
  \<open>parse_emoji_spine\<close> returns \<open>None\<close> instead of the spine of the three glyphs.
\<close>

theorem parse_emoji_spine_anger_line:
  "dict_has spine_anchors [0x1F525] \<and> dict_has spine_tempo [0x26A1]
   \<and> dict_has spine_intent [0x1F5EF, 0xFE0F]
   \<and> contains [0x1F525, 0x1F9E0, 0x26A1, 0x1F5EF, 0xFE0F] [0x1F525]
   \<and> contains [0x1F525, 0x1F9E0, 0x26A1, 0x1F5EF, 0xFE0F] [0x26A1]
   \<and> contains [0x1F525, 0x1F9E0, 0x26A1, 0x1F5EF, 0xFE0F] [0x1F5EF, 0xFE0F]
   \<and> findall_emojis [0x1F525, 0x1F9E0, 0x26A1, 0x1F5EF, 0xFE0F]
       = [[0x1F525], [0x26A1, 0x1F5EF, 0xFE0F]]
   \<and> parse_emoji_spine [0x1F525, 0x1F9E0, 0x26A1, 0x1F5EF, 0xFE0F] = None"
  by (simp add: compiler_defs)

section \<open>Facts about the interpreter\<close>

text \<open>
  A line that raises leaves the interpreter as it found it (the only raising call,
  \<open>input\<close>, comes before any assignment of its handler), and no line removes an output
  line, a variable or a consent entry.
\<close>

lemma print_message_fields [simp]:
  "output_buffer (print_message nfc st m) = output_buffer st @ [nfc m]"
  "variables (print_message nfc st m) = variables st"
  "consent_status (print_message nfc st m) = consent_status st"
  by (simp_all add: print_message_def)

lemma map_of_dict_set: "map_of (dict_set d k v) = (map_of d)(k \<mapsto> v)"
  by (induction d) (auto simp: fun_eq_iff)

lemma dict_set_keys: "dom (map_of (dict_set d k v)) = insert k (dom (map_of d))"
  by (simp add: map_of_dict_set)



lemma handle_input_ask_grows:
  "handle_input_ask nfc perr st line stdin = (e, st', stdin') \<Longrightarrow>
   prefix (output_buffer st) (output_buffer st')
   \<and> dom (map_of (variables st)) \<subseteq> dom (map_of (variables st'))
   \<and> dom (map_of (consent_status st)) \<subseteq> dom (map_of (consent_status st'))"
  by (auto simp: handle_input_ask_def Let_def map_of_dict_set
           split: option.splits list.splits input_event.splits if_splits)

lemma handle_voice_speak_grows:
  "prefix (output_buffer st) (output_buffer (handle_voice_speak nfc st line))
   \<and> variables (handle_voice_speak nfc st line) = variables st
   \<and> consent_status (handle_voice_speak nfc st line) = consent_status st"
  by (simp add: handle_voice_speak_def Let_def)

lemma handle_consent_grows:
  "prefix (output_buffer st) (output_buffer (handle_consent nfc st line))
   \<and> variables (handle_consent nfc st line) = variables st
   \<and> dom (map_of (consent_status st)) \<subseteq> dom (map_of (consent_status (handle_consent nfc st line)))"
  by (auto simp: handle_consent_def Let_def map_of_dict_set)

lemma handle_sacred_pause_grows:
  "prefix (output_buffer st) (output_buffer (handle_sacred_pause nfc st line))
   \<and> variables (handle_sacred_pause nfc st line) = variables st
   \<and> consent_status (handle_sacred_pause nfc st line) = consent_status st"
  by (simp add: handle_sacred_pause_def)

lemma handle_assignment_grows:
  "output_buffer (handle_assignment st line) = output_buffer st
   \<and> dom (map_of (variables st)) \<subseteq> dom (map_of (variables (handle_assignment st line)))
   \<and> consent_status (handle_assignment st line) = consent_status st"
  by (auto simp: handle_assignment_def Let_def map_of_dict_set split: list.splits)

lemma execute_line_grows:
  "execute_line nfc perr st line stdin = (e, st', stdin') \<Longrightarrow>
   prefix (output_buffer st) (output_buffer st')
   \<and> dom (map_of (variables st)) \<subseteq> dom (map_of (variables st'))
   \<and> dom (map_of (consent_status st)) \<subseteq> dom (map_of (consent_status st'))"
  using handle_voice_speak_grows [of st nfc line] handle_consent_grows [of st nfc line]
    handle_sacred_pause_grows [of st nfc line] handle_assignment_grows [of st line]
    handle_input_ask_grows [of nfc perr st line stdin e st' stdin']
  by (auto simp: execute_line_def Let_def split: if_splits)

lemma run_lines_output:
  "run_lines nfc perr n ls st stdin = (res, st', stdin') \<Longrightarrow> res_output res = output_buffer st'"
  by (induction ls arbitrary: n st stdin)
     (auto simp: Let_def split: if_splits prod.splits option.splits)

lemma run_lines_grows:
  "run_lines nfc perr n ls st stdin = (res, st', stdin') \<Longrightarrow>
   prefix (output_buffer st) (output_buffer st')
   \<and> dom (map_of (variables st)) \<subseteq> dom (map_of (variables st'))
   \<and> dom (map_of (consent_status st)) \<subseteq> dom (map_of (consent_status st'))"
proof (induction ls arbitrary: n st stdin)
  case Nil
  then show ?case by simp
next
  case (Cons l ls)
  show ?case
  proof (cases "strip l = [] \<or> startswith (strip l) (ascii ''//'')")
    case True
    with Cons.prems have "run_lines nfc perr (Suc n) ls st stdin = (res, st', stdin')"
      by (simp add: Let_def)
    from Cons.IH [OF this] show ?thesis .
  next
    case False
    obtain e st1 stdin1 where ex: "execute_line nfc perr st (strip l) stdin = (e, st1, stdin1)"
      by (cases "execute_line nfc perr st (strip l) stdin") auto
    note g1 = execute_line_grows [OF ex]
    show ?thesis
    proof (cases e)
      case None
      with False ex Cons.prems
      have "run_lines nfc perr (Suc n) ls st1 stdin1 = (res, st', stdin')"
        by (simp add: Let_def)
      from Cons.IH [OF this] g1 show ?thesis
        by (meson prefix_order.trans subset_trans)
    next
      case (Some x)
      with False ex Cons.prems have "st' = st1" by (auto simp: Let_def)
      with g1 show ?thesis by simp
    qed
  qed
qed



section \<open>The result of a run\<close>




section \<open>State across runs\<close>

text \<open>
  Claim C6, as the code has it. \<open>__init__\<close> gives a new interpreter an empty variable
  map, an empty consent map and an empty output buffer, and \<open>run\<close> resets none of them.
  So the second of two successive calls of \<open>run\<close> on one interpreter starts from the
  maps and the buffer that the first call left: the output of its result begins with the
  whole output of the first result, and every variable and consent domain bound after the
  first call is still bound after the second. Only a run on a new interpreter starts from
  empty state.
\<close>

theorem run_continues_from_interpreter_state:
  "variables init_interpreter = [] \<and> consent_status init_interpreter = []
   \<and> output_buffer init_interpreter = []
   \<and> (run nfc perr st0 content1 stdin1 = (res1, st1, stdin2)
        \<and> run nfc perr st1 content2 stdin2 = (res2, st2, stdin3)
      \<longrightarrow> res_output res1 = output_buffer st1
        \<and> run_lines nfc perr 1 (split content2 newline) st1 stdin2 = (res2, st2, stdin3)
        \<and> prefix (res_output res1) (res_output res2)
        \<and> dom (map_of (variables st1)) \<subseteq> dom (map_of (variables st2))
        \<and> dom (map_of (consent_status st1)) \<subseteq> dom (map_of (consent_status st2)))"
proof (intro conjI impI)
  show "variables init_interpreter = []" "consent_status init_interpreter = []"
    "output_buffer init_interpreter = []"
    by (simp_all add: init_interpreter_def)
next
  assume h: "run nfc perr st0 content1 stdin1 = (res1, st1, stdin2)
        \<and> run nfc perr st1 content2 stdin2 = (res2, st2, stdin3)"
  then have r1: "run_lines nfc perr 1 (split content1 newline) st0 stdin1 = (res1, st1, stdin2)"
    and r2: "run_lines nfc perr 1 (split content2 newline) st1 stdin2 = (res2, st2, stdin3)"
    by (simp_all add: run_def)
  from r2 show "run_lines nfc perr 1 (split content2 newline) st1 stdin2 = (res2, st2, stdin3)" .
  from run_lines_output [OF r1] show o1: "res_output res1 = output_buffer st1" .
  from run_lines_output [OF r2] have o2: "res_output res2 = output_buffer st2" .
  from run_lines_grows [OF r2] o1 o2
  show "prefix (res_output res1) (res_output res2)"
    and "dom (map_of (variables st1)) \<subseteq> dom (map_of (variables st2))"
    and "dom (map_of (consent_status st1)) \<subseteq> dom (map_of (consent_status st2))"
    by simp_all
qed

text \<open>
  After \<open>k = v\<close>, a second call with the program \<open>output.print(k)\<close> on the same
  interpreter prints \<open>v\<close>.
\<close>

theorem run_continues_from_interpreter_state_witness:
  "run (\<lambda>s. s) (\<lambda>p. None) init_interpreter (ascii ''k = v'') []
   = (\<lparr>res_success = True, res_error = None, res_output = [],
       res_variables = Some [(ascii ''k'', ascii ''v'')]\<rparr>,
      \<lparr>variables = [(ascii ''k'', ascii ''v'')], consent_status = [], output_buffer = []\<rparr>, [])
   \<and> run (\<lambda>s. s) (\<lambda>p. None)
         \<lparr>variables = [(ascii ''k'', ascii ''v'')], consent_status = [], output_buffer = []\<rparr>
         (ascii ''output.print(k)'') []
   = (\<lparr>res_success = True, res_error = None, res_output = [ascii ''v''],
       res_variables = Some [(ascii ''k'', ascii ''v'')]\<rparr>,
      \<lparr>variables = [(ascii ''k'', ascii ''v'')], consent_status = [],
        output_buffer = [ascii ''v'']\<rparr>, [])
   \<and> dom (map_of [(ascii ''k'', ascii ''v'')])
       \<subseteq> dom (map_of (variables \<lparr>variables = [(ascii ''k'', ascii ''v'')], consent_status = [],
                                   output_buffer = [ascii ''v'']\<rparr>))"
proof -
  let ?st1 = "\<lparr>variables = [(ascii ''k'', ascii ''v'')], consent_status = [],
               output_buffer = []\<rparr>"
  let ?st2 = "\<lparr>variables = [(ascii ''k'', ascii ''v'')], consent_status = [],
               output_buffer = [ascii ''v'']\<rparr>"
  have a: "run (\<lambda>s. s) (\<lambda>p. None) init_interpreter (ascii ''k = v'') []
   = (\<lparr>res_success = True, res_error = None, res_output = [],
       res_variables = Some [(ascii ''k'', ascii ''v'')]\<rparr>, ?st1, [])"
    by (simp add: string_defs interpreter_defs)
  have b: "run (\<lambda>s. s) (\<lambda>p. None) ?st1 (ascii ''output.print(k)'') []
   = (\<lparr>res_success = True, res_error = None, res_output = [ascii ''v''],
       res_variables = Some [(ascii ''k'', ascii ''v'')]\<rparr>, ?st2, [])"
    by (simp add: string_defs interpreter_defs)
  from a b have h: "run (\<lambda>s. s) (\<lambda>p. None) init_interpreter (ascii ''k = v'') []
      = (\<lparr>res_success = True, res_error = None, res_output = [],
          res_variables = Some [(ascii ''k'', ascii ''v'')]\<rparr>, ?st1, [])
    \<and> run (\<lambda>s. s) (\<lambda>p. None) ?st1 (ascii ''output.print(k)'') []
      = (\<lparr>res_success = True, res_error = None, res_output = [ascii ''v''],
          res_variables = Some [(ascii ''k'', ascii ''v'')]\<rparr>, ?st2, [])"
    by simp
  from run_continues_from_interpreter_state [THEN conjunct2, THEN conjunct2, THEN conjunct2,
      rule_format, OF h]
  have "dom (map_of (variables ?st1)) \<subseteq> dom (map_of (variables ?st2))" by simp
  with a b show ?thesis by simp
qed

text \<open>
  The claim as the specification words it makes the second call equal to a run on a new
  interpreter. After a call with \<open>output.print(a)\<close>, the call with \<open>output.print(b)\<close>
  returns the output \<open>a\<close>, \<open>b\<close>; on a new interpreter it returns \<open>b\<close>.
\<close>

theorem run_second_call_differs_from_fresh:
  "run (\<lambda>s. s) (\<lambda>p. None) init_interpreter (ascii ''output.print(a)'') []
   = (\<lparr>res_success = True, res_error = None, res_output = [ascii ''a''],
       res_variables = Some []\<rparr>,
      \<lparr>variables = [], consent_status = [], output_buffer = [ascii ''a'']\<rparr>, [])
   \<and> run (\<lambda>s. s) (\<lambda>p. None)
         \<lparr>variables = [], consent_status = [], output_buffer = [ascii ''a'']\<rparr>
         (ascii ''output.print(b)'') []
   = (\<lparr>res_success = True, res_error = None, res_output = [ascii ''a'', ascii ''b''],
       res_variables = Some []\<rparr>,
      \<lparr>variables = [], consent_status = [], output_buffer = [ascii ''a'', ascii ''b'']\<rparr>, [])
   \<and> run (\<lambda>s. s) (\<lambda>p. None) init_interpreter (ascii ''output.print(b)'') []
   = (\<lparr>res_success = True, res_error = None, res_output = [ascii ''b''],
       res_variables = Some []\<rparr>,
      \<lparr>variables = [], consent_status = [], output_buffer = [ascii ''b'']\<rparr>, [])"
  by (simp add: string_defs interpreter_defs)

section \<open>The anger spine, compiled and interpreted\<close>

text \<open>
  Claim C1, as the code has it. The spine with anchor U+1F525, body U+1F9E0, tempo U+26A1
  and intent U+1F5EF U+FE0F renders through the fixed tables as the one statement
  \<open>user.emotional_state = "anger"; user.tempo = "urgent"; user.intent = "speak_truth"\<close>.
  The line interpreter has no statement separator: it splits that line at its first
  \<open>=\<close> and removes the outer quotes of the rest, so it binds the one variable
  \<open>user.emotional_state\<close>, to the text
  \<open>anger"; user.tempo = "urgent"; user.intent = "speak_truth\<close>, and binds neither
  \<open>user.tempo\<close> nor \<open>user.intent\<close>. (Whether \<open>compile_emoji_line\<close> reaches this
  spine from the emoji line is the matter of claim C5.)
\<close>

theorem anger_spine_statement_interpreted:
  "to_spirallogic \<lparr>anchor = [0x1F525], body = [0x1F9E0], tempo = [0x26A1],
                    intent = [0x1F5EF, 0xFE0F]\<rparr>
     = ascii ''user.emotional_state = '' @ [dq] @ ascii ''anger'' @ [dq]
       @ ascii ''; user.tempo = '' @ [dq] @ ascii ''urgent'' @ [dq]
       @ ascii ''; user.intent = '' @ [dq] @ ascii ''speak_truth'' @ [dq]
   \<and> run nfc perr init_interpreter
         (to_spirallogic \<lparr>anchor = [0x1F525], body = [0x1F9E0], tempo = [0x26A1],
                           intent = [0x1F5EF, 0xFE0F]\<rparr>) stdin
     = (\<lparr>res_success = True, res_error = None, res_output = [],
         res_variables = Some [(ascii ''user.emotional_state'',
           ascii ''anger'' @ [dq] @ ascii ''; user.tempo = '' @ [dq] @ ascii ''urgent'' @ [dq]
           @ ascii ''; user.intent = '' @ [dq] @ ascii ''speak_truth'')]\<rparr>,
        \<lparr>variables = [(ascii ''user.emotional_state'',
           ascii ''anger'' @ [dq] @ ascii ''; user.tempo = '' @ [dq] @ ascii ''urgent'' @ [dq]
           @ ascii ''; user.intent = '' @ [dq] @ ascii ''speak_truth'')],
          consent_status = [], output_buffer = []\<rparr>, stdin)"
proof -
  have t: "to_spirallogic \<lparr>anchor = [0x1F525], body = [0x1F9E0], tempo = [0x26A1],
                    intent = [0x1F5EF, 0xFE0F]\<rparr>
     = ascii ''user.emotional_state = '' @ [dq] @ ascii ''anger'' @ [dq]
       @ ascii ''; user.tempo = '' @ [dq] @ ascii ''urgent'' @ [dq]
       @ ascii ''; user.intent = '' @ [dq] @ ascii ''speak_truth'' @ [dq]"
    by (simp add: compiler_defs)
  have r: "run nfc perr init_interpreter
         (ascii ''user.emotional_state = '' @ [dq] @ ascii ''anger'' @ [dq]
       @ ascii ''; user.tempo = '' @ [dq] @ ascii ''urgent'' @ [dq]
       @ ascii ''; user.intent = '' @ [dq] @ ascii ''speak_truth'' @ [dq]) stdin
     = (\<lparr>res_success = True, res_error = None, res_output = [],
         res_variables = Some [(ascii ''user.emotional_state'',
           ascii ''anger'' @ [dq] @ ascii ''; user.tempo = '' @ [dq] @ ascii ''urgent'' @ [dq]
           @ ascii ''; user.intent = '' @ [dq] @ ascii ''speak_truth'')]\<rparr>,
        \<lparr>variables = [(ascii ''user.emotional_state'',
           ascii ''anger'' @ [dq] @ ascii ''; user.tempo = '' @ [dq] @ ascii ''urgent'' @ [dq]
           @ ascii ''; user.intent = '' @ [dq] @ ascii ''speak_truth'')],
          consent_status = [], output_buffer = []\<rparr>, stdin)"
    by (simp add: string_defs interpreter_defs)
  show ?thesis unfolding t using r by simp
qed

text \<open>
  The claim as the specification words it starts from the emoji line U+1F525 U+1F9E0
  U+26A1 U+1F5EF U+FE0F. \<open>compile_emoji_line\<close> finds no spine in it and takes the voice
  branch (the line contains U+1F9E0); the interpreter has no rule for the statement it
  returns, so the run binds no variable at all.
\<close>

theorem anger_line_compiled_and_interpreted:
  "compile_emoji_line (\<lambda>s. s) [0x1F525, 0x1F9E0, 0x26A1, 0x1F5EF, 0xFE0F]
     = ascii ''@healer.assess(user.emotional_state)''
   \<and> run (\<lambda>s. s) (\<lambda>p. None) init_interpreter
         (compile_emoji_line (\<lambda>s. s) [0x1F525, 0x1F9E0, 0x26A1, 0x1F5EF, 0xFE0F]) []
     = (\<lparr>res_success = True, res_error = None, res_output = [], res_variables = Some []\<rparr>,
        init_interpreter, [])"
proof -
  have c: "compile_emoji_line (\<lambda>s. s) [0x1F525, 0x1F9E0, 0x26A1, 0x1F5EF, 0xFE0F]
     = ascii ''@healer.assess(user.emotional_state)''"
    by (simp add: string_defs compiler_defs)
  have r: "run (\<lambda>s. s) (\<lambda>p. None) init_interpreter
             (ascii ''@healer.assess(user.emotional_state)'') []
     = (\<lparr>res_success = True, res_error = None, res_output = [], res_variables = Some []\<rparr>,
        init_interpreter, [])"
    by (simp add: string_defs interpreter_defs)
  show ?thesis unfolding c using r by simp
qed

section \<open>The order of the branches of \<open>compile_emoji_line\<close>\<close>

lemmas handler_defs = contains_emojis_def compile_voice_invocation_def compile_conditional_def
  compile_sacred_pause_def compile_consent_def compile_spiral_phase_def to_spirallogic_def
  first_in_def dict_get_def dict_has_def spine_anchors_def spine_tempo_def spine_intent_def

lemmas parse_defs = parse_emoji_spine_def findall_emojis_def emoji_class_def first_in_def
  dict_has_def spine_anchors_def spine_tempo_def spine_intent_def

text \<open>
  Claim C2, as the code has it. \<open>compile_emoji_line\<close> strips and normalises the line and
  classifies the resulting text \<open>l\<close> by the first test that holds, in the fixed order:
  spine parse, voice glyphs (U+1F3F0, U+1F9E0), conditional glyphs (U+1F4AD, U+27A1 U+FE0F),
  pause glyphs (U+23F8 U+FE0F, U+1F6D1), consent glyphs (U+1F4CB, U+2705, U+274C), spiral
  glyph (U+1F300), generic echo. The result is that of the first satisfied branch whatever
  the later tests would give. So a text on which the spine parse fails and which contains a
  voice glyph is compiled as a voice invocation, also when it contains consent glyphs; a
  text in which the spine parse succeeds is rendered as a spine, also when it contains voice
  and consent glyphs.
\<close>

theorem compile_emoji_line_first_match:
  "l = nfc (strip line) \<Longrightarrow>
   (parse_emoji_spine l = Some spine \<longrightarrow> compile_emoji_line nfc line = to_spirallogic spine)
   \<and> (parse_emoji_spine l = None \<and> contains_emojis l [[0x1F3F0], [0x1F9E0]]
        \<longrightarrow> compile_emoji_line nfc line = compile_voice_invocation l)
   \<and> (parse_emoji_spine l = None \<and> \<not> contains_emojis l [[0x1F3F0], [0x1F9E0]]
        \<and> contains_emojis l [[0x1F4AD], [0x27A1, 0xFE0F]]
        \<longrightarrow> compile_emoji_line nfc line = compile_conditional l)
   \<and> (parse_emoji_spine l = None \<and> \<not> contains_emojis l [[0x1F3F0], [0x1F9E0]]
        \<and> \<not> contains_emojis l [[0x1F4AD], [0x27A1, 0xFE0F]]
        \<and> contains_emojis l [[0x23F8, 0xFE0F], [0x1F6D1]]
        \<longrightarrow> compile_emoji_line nfc line = compile_sacred_pause l)
   \<and> (parse_emoji_spine l = None \<and> \<not> contains_emojis l [[0x1F3F0], [0x1F9E0]]
        \<and> \<not> contains_emojis l [[0x1F4AD], [0x27A1, 0xFE0F]]
        \<and> \<not> contains_emojis l [[0x23F8, 0xFE0F], [0x1F6D1]]
        \<and> contains_emojis l [[0x1F4CB], [0x2705], [0x274C]]
        \<longrightarrow> compile_emoji_line nfc line = compile_consent l)
   \<and> (parse_emoji_spine l = None \<and> \<not> contains_emojis l [[0x1F3F0], [0x1F9E0]]
        \<and> \<not> contains_emojis l [[0x1F4AD], [0x27A1, 0xFE0F]]
        \<and> \<not> contains_emojis l [[0x23F8, 0xFE0F], [0x1F6D1]]
        \<and> \<not> contains_emojis l [[0x1F4CB], [0x2705], [0x274C]]
        \<and> contains l [0x1F300]
        \<longrightarrow> compile_emoji_line nfc line = compile_spiral_phase l)
   \<and> (parse_emoji_spine l = None \<and> \<not> contains_emojis l [[0x1F3F0], [0x1F9E0]]
        \<and> \<not> contains_emojis l [[0x1F4AD], [0x27A1, 0xFE0F]]
        \<and> \<not> contains_emojis l [[0x23F8, 0xFE0F], [0x1F6D1]]
        \<and> \<not> contains_emojis l [[0x1F4CB], [0x2705], [0x274C]]
        \<and> \<not> contains l [0x1F300]
        \<longrightarrow> compile_emoji_line nfc line
            = ascii ''output.print('' @ [dq] @ ascii ''Emoji expression: '' @ l @ [dq]
              @ ascii '')'')"
  by (simp add: compile_emoji_line_def Let_def)

text \<open>One line for each of the seven branches.\<close>

theorem compile_emoji_line_first_match_witness:
  "compile_emoji_line (\<lambda>s. s) [0x1F525, 0x20, 0x26A1, 0x20, 0x1F5EF, 0xFE0F]
     = ascii ''user.emotional_state = '' @ [dq] @ ascii ''anger'' @ [dq]
       @ ascii ''; user.tempo = '' @ [dq] @ ascii ''urgent'' @ [dq]
       @ ascii ''; user.intent = '' @ [dq] @ ascii ''speak_truth'' @ [dq]
   \<and> compile_emoji_line (\<lambda>s. s) [0x1F3F0, 0x1F9E0, 0x1F4CB, 0x2705]
     = ascii ''@healer.assess(user.emotional_state)''
   \<and> compile_emoji_line (\<lambda>s. s) [0x1F4AD, 0x1F92F, 0x27A1, 0xFE0F, 0x2705]
     = ascii ''if user.bandwidth.current() < 0.3 { sacred_pause.mandatory() }''
   \<and> compile_emoji_line (\<lambda>s. s) [0x1F6D1, 0x274C]
     = ascii ''sacred_pause.mandatory { purpose: '' @ [dq]
       @ ascii ''Emotional overload protection'' @ [dq] @ ascii '' }''
   \<and> compile_emoji_line (\<lambda>s. s) [0x1F4CB, 0x1F300]
     = ascii ''consent.check('' @ [dq] @ ascii ''emotional_support'' @ [dq] @ ascii '')''
   \<and> compile_emoji_line (\<lambda>s. s) [0x1F300, 0x1F30A]
     = ascii ''spiral_up { @healer.guide_processing() }''
   \<and> compile_emoji_line (\<lambda>s. s) (ascii ''hi'')
     = ascii ''output.print('' @ [dq] @ ascii ''Emoji expression: hi'' @ [dq] @ ascii '')''"
proof -
  let ?l1 = "[0x1F525, 0x20, 0x26A1, 0x20, 0x1F5EF, 0xFE0F] :: ustr"
  let ?l2 = "[0x1F3F0, 0x1F9E0, 0x1F4CB, 0x2705] :: ustr"
  let ?l3 = "[0x1F4AD, 0x1F92F, 0x27A1, 0xFE0F, 0x2705] :: ustr"
  let ?l4 = "[0x1F6D1, 0x274C] :: ustr"
  let ?l5 = "[0x1F4CB, 0x1F300] :: ustr"
  let ?l6 = "[0x1F300, 0x1F30A] :: ustr"
  let ?l7 = "ascii ''hi''"
  have n1: "?l1 = (\<lambda>s. s) (strip ?l1)" by (simp add: string_defs)
  have n2: "?l2 = (\<lambda>s. s) (strip ?l2)" by (simp add: string_defs)
  have n3: "?l3 = (\<lambda>s. s) (strip ?l3)" by (simp add: string_defs)
  have n4: "?l4 = (\<lambda>s. s) (strip ?l4)" by (simp add: string_defs)
  have n5: "?l5 = (\<lambda>s. s) (strip ?l5)" by (simp add: string_defs)
  have n6: "?l6 = (\<lambda>s. s) (strip ?l6)" by (simp add: string_defs)
  have n7: "?l7 = (\<lambda>s. s) (strip ?l7)" by (simp add: string_defs)
  have p1: "parse_emoji_spine ?l1 = Some \<lparr>anchor = [0x1F525], body = [0x1F9E0],
              tempo = [0x26A1], intent = [0x1F5EF, 0xFE0F]\<rparr>"
    by (simp add: parse_defs)
  have p2: "parse_emoji_spine ?l2 = None \<and> contains_emojis ?l2 [[0x1F3F0], [0x1F9E0]]"
    by (simp add: parse_defs contains_emojis_def)
  have p3: "parse_emoji_spine ?l3 = None \<and> \<not> contains_emojis ?l3 [[0x1F3F0], [0x1F9E0]]
        \<and> contains_emojis ?l3 [[0x1F4AD], [0x27A1, 0xFE0F]]"
    by (simp add: parse_defs contains_emojis_def)
  have p4: "parse_emoji_spine ?l4 = None \<and> \<not> contains_emojis ?l4 [[0x1F3F0], [0x1F9E0]]
        \<and> \<not> contains_emojis ?l4 [[0x1F4AD], [0x27A1, 0xFE0F]]
        \<and> contains_emojis ?l4 [[0x23F8, 0xFE0F], [0x1F6D1]]"
    by (simp add: parse_defs contains_emojis_def)
  have p5: "parse_emoji_spine ?l5 = None \<and> \<not> contains_emojis ?l5 [[0x1F3F0], [0x1F9E0]]
        \<and> \<not> contains_emojis ?l5 [[0x1F4AD], [0x27A1, 0xFE0F]]
        \<and> \<not> contains_emojis ?l5 [[0x23F8, 0xFE0F], [0x1F6D1]]
        \<and> contains_emojis ?l5 [[0x1F4CB], [0x2705], [0x274C]]"
    by (simp add: parse_defs contains_emojis_def)
  have p6: "parse_emoji_spine ?l6 = None \<and> \<not> contains_emojis ?l6 [[0x1F3F0], [0x1F9E0]]
        \<and> \<not> contains_emojis ?l6 [[0x1F4AD], [0x27A1, 0xFE0F]]
        \<and> \<not> contains_emojis ?l6 [[0x23F8, 0xFE0F], [0x1F6D1]]
        \<and> \<not> contains_emojis ?l6 [[0x1F4CB], [0x2705], [0x274C]]
        \<and> contains ?l6 [0x1F300]"
    by (simp add: parse_defs contains_emojis_def)
  have p7: "parse_emoji_spine ?l7 = None \<and> \<not> contains_emojis ?l7 [[0x1F3F0], [0x1F9E0]]
        \<and> \<not> contains_emojis ?l7 [[0x1F4AD], [0x27A1, 0xFE0F]]
        \<and> \<not> contains_emojis ?l7 [[0x23F8, 0xFE0F], [0x1F6D1]]
        \<and> \<not> contains_emojis ?l7 [[0x1F4CB], [0x2705], [0x274C]]
        \<and> \<not> contains ?l7 [0x1F300]"
    by (simp add: parse_defs contains_emojis_def ascii_def)
  note t1 = compile_emoji_line_first_match [where l = "?l1" and nfc = "\<lambda>s. s" and line = "?l1",
              OF n1, THEN conjunct1, rule_format, OF p1]
  note t2 = compile_emoji_line_first_match [where l = "?l2" and nfc = "\<lambda>s. s" and line = "?l2",
              OF n2, THEN conjunct2, THEN conjunct1,
              rule_format, OF p2]
  note t3 = compile_emoji_line_first_match [where l = "?l3" and nfc = "\<lambda>s. s" and line = "?l3",
              OF n3, THEN conjunct2, THEN conjunct2,
              THEN conjunct1, rule_format, OF p3]
  note t4 = compile_emoji_line_first_match [where l = "?l4" and nfc = "\<lambda>s. s" and line = "?l4",
              OF n4, THEN conjunct2, THEN conjunct2,
              THEN conjunct2, THEN conjunct1, rule_format, OF p4]
  note t5 = compile_emoji_line_first_match [where l = "?l5" and nfc = "\<lambda>s. s" and line = "?l5",
              OF n5, THEN conjunct2, THEN conjunct2,
              THEN conjunct2, THEN conjunct2, THEN conjunct1, rule_format, OF p5]
  note t6 = compile_emoji_line_first_match [where l = "?l6" and nfc = "\<lambda>s. s" and line = "?l6",
              OF n6, THEN conjunct2, THEN conjunct2,
              THEN conjunct2, THEN conjunct2, THEN conjunct2, THEN conjunct1, rule_format,
              OF p6]
  note t7 = compile_emoji_line_first_match [where l = "?l7" and nfc = "\<lambda>s. s" and line = "?l7",
              OF n7, THEN conjunct2, THEN conjunct2,
              THEN conjunct2, THEN conjunct2, THEN conjunct2, THEN conjunct2, rule_format,
              OF p7]
  show ?thesis
    unfolding t1 t2 t3 t4 t5 t6 t7 by (simp add: handler_defs ascii_def)
qed

text \<open>
  The claim as the specification words it has every line with both voice and consent glyphs
  classified as a voice invocation. The line U+1F3F0, space, U+1F4CB, space, U+2705 has
  both; the pattern finds three matches in it, so the spine branch, which comes first,
  renders the spine of the three default glyphs.
\<close>

theorem voice_and_consent_line_compiled_as_spine:
  "contains_emojis [0x1F3F0, 0x20, 0x1F4CB, 0x20, 0x2705] [[0x1F3F0], [0x1F9E0]]
   \<and> contains_emojis [0x1F3F0, 0x20, 0x1F4CB, 0x20, 0x2705] [[0x1F4CB], [0x2705], [0x274C]]
   \<and> compile_emoji_line (\<lambda>s. s) [0x1F3F0, 0x20, 0x1F4CB, 0x20, 0x2705]
       = ascii ''user.emotional_state = '' @ [dq] @ ascii ''confusion'' @ [dq]
         @ ascii ''; user.tempo = '' @ [dq] @ ascii ''normal'' @ [dq]
         @ ascii ''; user.intent = '' @ [dq] @ ascii ''connect'' @ [dq]
   \<and> compile_voice_invocation [0x1F3F0, 0x20, 0x1F4CB, 0x20, 0x2705]
       = ascii ''@healer.assess(user.emotional_state)''"
  by (simp add: string_defs compiler_defs)

section \<open>\<open>output.print(\<close> without a closing parenthesis\<close>

lemma ascii_append: "ascii (a @ b) = ascii a @ ascii b"
  by (simp add: ascii_def)

lemma find_startswith: "startswith s p \<Longrightarrow> find s p = 0"
  by (cases s; cases p) (auto simp: find_def)

text \<open>
  Claim C10, as the code has it. A line that contains \<open>output.print(\<close> and no \<open>)\<close>
  does not raise. \<open>rfind\<close> gives \<open>-1\<close>, so the slice that \<open>_extract_string_arg\<close> takes is
  the text of the line from just after the first \<open>output.print(\<close> up to, and without, the
  last code point of the line. The argument is that text with the white space at its two
  ends removed; one pair of surrounding quotes is removed from it, the variables are
  substituted, and \<open>_print\<close> normalises the message and appends it to the buffer. No
  variable or consent entry changes, no input is read, and the run goes on with the next
  line.
\<close>

theorem output_print_without_closing_paren:
  assumes "contains line (ascii ''output.print('')" and "\<not> contains line (ascii '')'')"
  shows "execute_line nfc perr st line stdin
     = (None,
        st\<lparr>output_buffer := output_buffer st
           @ [nfc (substitute_variables (variables st)
                (remove_quotes (strip
                  (butlast (drop (nat (find line (ascii ''output.print('')) + 13) line)))))]\<rparr>,
        stdin)
   \<and> (strip line0 = line \<and> \<not> startswith line (ascii ''//'')
      \<longrightarrow> run_lines nfc perr n (line0 # lines) st stdin
        = run_lines nfc perr (Suc n) lines
            (st\<lparr>output_buffer := output_buffer st
               @ [nfc (substitute_variables (variables st)
                    (remove_quotes (strip
                      (butlast (drop (nat (find line (ascii ''output.print('')) + 13)
                                 line)))))]\<rparr>)
            stdin)"
proof -
  let ?P = "ascii ''output.print(''"
  let ?arg = "butlast (drop (nat (find line ?P) + 13) line)"
  have P: "ascii ''output.print'' @ ascii ''('' = ?P" by (simp add: ascii_def)
  have len: "length ?P = 13" by (simp add: ascii_def)
  from find_contains [OF assms(1)] len
  have f: "0 \<le> find line ?P" and b: "nat (find line ?P) + 13 \<le> length line" by simp_all
  have start: "find line ?P + 13 = int (nat (find line ?P) + 13)" using f by simp
  have sl: "slice line (find line ?P + 13) (- 1) = ?arg"
    unfolding start by (rule slice_to_last [OF b])
  have ex: "extract_string_arg (variables st) line (ascii ''output.print'')
            = substitute_variables (variables st) (remove_quotes (strip ?arg))"
    by (simp add: extract_string_arg_def Let_def P len rfind_absent [OF assms(2)] sl)
  have e: "execute_line nfc perr st line stdin
     = (None, st\<lparr>output_buffer := output_buffer st
           @ [nfc (substitute_variables (variables st) (remove_quotes (strip ?arg)))]\<rparr>, stdin)"
    using assms(1) by (simp add: execute_line_def ex print_message_def)
  have ne: "line \<noteq> []" using contains_nonempty [OF assms(1)] by (simp add: ascii_def)
  show ?thesis using e ne by (simp add: Let_def)
qed

text \<open>
  The line \<open>output.print("Hello\<close>: the argument is \<open>"Hell\<close>, which keeps its quote
  because it does not end with one.
\<close>

theorem output_print_without_closing_paren_witness:
  "execute_line (\<lambda>s. s) (\<lambda>p. None) init_interpreter
      (ascii ''output.print('' @ [dq] @ ascii ''Hello'') []
   = (None, \<lparr>variables = [], consent_status = [],
              output_buffer = [[dq] @ ascii ''Hell'']\<rparr>, [])"
proof -
  let ?line = "ascii ''output.print('' @ [dq] @ ascii ''Hello''"
  have a: "contains ?line (ascii ''output.print('')" by (simp add: ascii_def)
  have b: "\<not> contains ?line (ascii '')'')" by (simp add: ascii_def)
  from output_print_without_closing_paren [OF a b, THEN conjunct1,
      of "\<lambda>s. s" "\<lambda>p. None" init_interpreter "[]"]
  show ?thesis by (simp add: string_defs remove_quotes_def init_interpreter_def)
qed

text \<open>
  The claim as the specification words it prints the slice itself. At the line
  \<open>output.print( hi!\<close> the slice is \<open> hi\<close> with its leading space, and the line
  prints \<open>hi\<close>.
\<close>

theorem output_print_argument_is_trimmed:
  "butlast (drop 13 (ascii ''output.print( hi!'')) = ascii '' hi''
   \<and> execute_line (\<lambda>s. s) (\<lambda>p. None) init_interpreter (ascii ''output.print( hi!'') []
     = (None, \<lparr>variables = [], consent_status = [], output_buffer = [ascii ''hi'']\<rparr>, [])"
  by (simp add: string_defs interpreter_defs)

end
